theory Spec2Isabelle
  imports Complex_Main
begin

section \<open>JavaScript values\<close>

text \<open>
  The prediction page is plain JavaScript. A JavaScript number is modelled as a real
  number or \<open>NaN\<close>; the two infinities are left out. The arithmetic of the prices is
  exact, without the rounding of doubles. The confidence of a prediction is computed as
  the code computes it, in binary64, since rounding decides whether it reaches 1 (see the
  section on rounding below). \<open>Number.parseInt\<close> and \<open>Number.parseFloat\<close> return
  such a number; \<open>null\<close> and \<open>undefined\<close> are rendered by \<open>None\<close> where the code
  only tests them for truthiness.
\<close>

datatype jsnum = NaN | Num real

datatype jsval =
    JUndefined
  | JNumber jsnum
  | JString string
  | JObject "(string \<times> jsval) list"

datatype js_error = Error string | TypeError string

fun message :: "js_error \<Rightarrow> string" where
  "message (Error m) = m"
| "message (TypeError m) = m"

text \<open>Truthiness of a number: \<open>NaN\<close> and zero are falsy.\<close>

fun truthy :: "jsnum \<Rightarrow> bool" where
  "truthy NaN = False"
| "truthy (Num x) = (x \<noteq> 0)"

text \<open>\<open>a || b\<close> where \<open>b\<close> is a finite number: the result is a finite number.\<close>

fun js_or :: "jsnum \<Rightarrow> real \<Rightarrow> real" where
  "js_or NaN b = b"
| "js_or (Num x) b = (if x \<noteq> 0 then x else b)"

text \<open>\<open>price || b\<close> where \<open>price\<close> may also be \<open>null\<close>, which is falsy.\<close>

fun or_else :: "jsnum option \<Rightarrow> real \<Rightarrow> real" where
  "or_else None b = b"
| "or_else (Some p) b = js_or p b"

text \<open>\<open>a <= 0\<close>: every comparison with \<open>NaN\<close> is false.\<close>

fun le_zero :: "jsnum \<Rightarrow> bool" where
  "le_zero NaN = False"
| "le_zero (Num x) = (x \<le> 0)"

text \<open>Property access \<open>obj[k]\<close> on a plain data object and the \<open>in\<close>-style presence test.\<close>

fun get_property :: "jsval \<Rightarrow> string \<Rightarrow> jsval" where
  "get_property (JObject kvs) k = (case map_of kvs k of Some v \<Rightarrow> v | None \<Rightarrow> JUndefined)"
| "get_property _ k = JUndefined"

fun has_property :: "jsval \<Rightarrow> string \<Rightarrow> bool" where
  "has_property (JObject kvs) k = (k \<in> set (map fst kvs))"
| "has_property _ k = False"

fun keys :: "jsval \<Rightarrow> string list" where
  "keys (JObject kvs) = map fst kvs"
| "keys _ = []"

section \<open>Rounding to binary64\<close>

text \<open>
  A JavaScript number is an IEEE 754 binary64 value, and every literal, product and sum is
  rounded to the nearest such value, ties to the even significand. \<open>fl\<close> is that
  rounding on the reals: the value is scaled by a power of two so that it lies between
  \<open>2^52\<close> and \<open>2^53\<close>, rounded to an integer, and scaled back. The scaling counts at
  most 1022 doublings, which gives the fixed spacing \<open>2^-1074\<close> of the subnormal range,
  and at most 1023 halvings; magnitudes from \<open>2^1024\<close> on, which overflow, do not occur
  in the computations below.
\<close>

definition rne :: "real \<Rightarrow> int" where
  "rne y =
    (let f = \<lfloor>y\<rfloor>; d = y - of_int f
     in if d < 1 / 2 then f else if 1 / 2 < d then f + 1 else if even f then f else f + 1)"

fun halvings :: "nat \<Rightarrow> real \<Rightarrow> nat" where
  "halvings 0 x = 0"
| "halvings (Suc n) x = (if 2 \<le> x then Suc (halvings n (x / 2)) else 0)"

fun doublings :: "nat \<Rightarrow> real \<Rightarrow> nat" where
  "doublings 0 x = 0"
| "doublings (Suc n) x = (if x < 1 then Suc (doublings n (2 * x)) else 0)"

definition scale :: "real \<Rightarrow> real" where
  "scale x = 2 ^ 52 * 2 ^ doublings 1022 x / 2 ^ halvings 1023 x"

definition fl :: "real \<Rightarrow> real" where
  "fl x =
    (if x = 0 then 0
     else if x < 0 then - (of_int (rne (- x * scale (- x))) / scale (- x))
     else of_int (rne (x * scale x)) / scale x)"

text \<open>
  \<open>Math.random() * 0.3 + 0.7\<close> and \<open>Math.random() * 0.2 + 0.8\<close> in binary64: the two
  literals are rounded, then the product, then the sum.
\<close>

definition daily_confidence :: "real \<Rightarrow> real" where
  "daily_confidence r = fl (fl (r * fl 0.3) + fl 0.7)"

definition hourly_confidence :: "real \<Rightarrow> real" where
  "hourly_confidence r = fl (fl (r * fl 0.2) + fl 0.8)"

section \<open>The static table \<open>cryptoData\<close>\<close>

record model_metrics =
  mae :: real
  rmse :: real
  r2 :: real
  accuracy :: real

record coin =
  name :: string
  symbol :: string
  currentPrice :: real
  change24h :: real
  hourlyModel :: model_metrics
  dailyModel :: model_metrics
  color :: string
  gradient :: string

definition cryptoData :: "(string \<times> coin) list" where
  "cryptoData =
    [(''BTC'', \<lparr>name = ''Bitcoin'', symbol = ''BTC'', currentPrice = 43250.75, change24h = 2.34,
        hourlyModel = \<lparr>mae = 125.5, rmse = 189.25, r2 = 0.892, accuracy = 89.2\<rparr>,
        dailyModel = \<lparr>mae = 1250.75, rmse = 1890.5, r2 = 0.756, accuracy = 75.6\<rparr>,
        color = ''#f7931a'', gradient = ''linear-gradient(135deg, #f7931a 0%, #ff6b35 100%)''\<rparr>),
     (''ETH'', \<lparr>name = ''Ethereum'', symbol = ''ETH'', currentPrice = 2650.25, change24h = - 1.45,
        hourlyModel = \<lparr>mae = 45.25, rmse = 67.8, r2 = 0.885, accuracy = 88.5\<rparr>,
        dailyModel = \<lparr>mae = 125.5, rmse = 189.75, r2 = 0.742, accuracy = 74.2\<rparr>,
        color = ''#627eea'', gradient = ''linear-gradient(135deg, #627eea 0%, #00d4ff 100%)''\<rparr>),
     (''ADA'', \<lparr>name = ''Cardano'', symbol = ''ADA'', currentPrice = 0.485, change24h = 3.67,
        hourlyModel = \<lparr>mae = 0.012, rmse = 0.018, r2 = 0.876, accuracy = 87.6\<rparr>,
        dailyModel = \<lparr>mae = 0.035, rmse = 0.052, r2 = 0.721, accuracy = 72.1\<rparr>,
        color = ''#0033ad'', gradient = ''linear-gradient(135deg, #0033ad 0%, #7c3aed 100%)''\<rparr>),
     (''BNB'', \<lparr>name = ''Binance Coin'', symbol = ''BNB'', currentPrice = 315.8, change24h = 1.89,
        hourlyModel = \<lparr>mae = 8.25, rmse = 12.5, r2 = 0.881, accuracy = 88.1\<rparr>,
        dailyModel = \<lparr>mae = 22.75, rmse = 34.25, r2 = 0.738, accuracy = 73.8\<rparr>,
        color = ''#f3ba2f'', gradient = ''linear-gradient(135deg, #f3ba2f 0%, #ff6b35 100%)''\<rparr>),
     (''DOGE'', \<lparr>name = ''Dogecoin'', symbol = ''DOGE'', currentPrice = 0.0825, change24h = 5.23,
        hourlyModel = \<lparr>mae = 0.0025, rmse = 0.0038, r2 = 0.863, accuracy = 86.3\<rparr>,
        dailyModel = \<lparr>mae = 0.0075, rmse = 0.0112, r2 = 0.695, accuracy = 69.5\<rparr>,
        color = ''#c2a633'', gradient = ''linear-gradient(135deg, #c2a633 0%, #f59e0b 100%)''\<rparr>),
     (''SOL'', \<lparr>name = ''Solana'', symbol = ''SOL'', currentPrice = 98.45, change24h = - 2.15,
        hourlyModel = \<lparr>mae = 2.85, rmse = 4.25, r2 = 0.889, accuracy = 88.9\<rparr>,
        dailyModel = \<lparr>mae = 8.5, rmse = 12.75, r2 = 0.751, accuracy = 75.1\<rparr>,
        color = ''#9945ff'', gradient = ''linear-gradient(135deg, #9945ff 0%, #7c3aed 100%)''\<rparr>),
     (''MATIC'', \<lparr>name = ''Polygon'', symbol = ''MATIC'', currentPrice = 0.875, change24h = 0.95,
        hourlyModel = \<lparr>mae = 0.025, rmse = 0.038, r2 = 0.872, accuracy = 87.2\<rparr>,
        dailyModel = \<lparr>mae = 0.065, rmse = 0.095, r2 = 0.718, accuracy = 71.8\<rparr>,
        color = ''#8247e5'', gradient = ''linear-gradient(135deg, #8247e5 0%, #00d4ff 100%)''\<rparr>)]"

text \<open>
  The table is the one of \<open>script.js\<close> (lines 239-310), in the order of the source.
  \<open>cryptoData\<close> is an object literal, so \<open>cryptoData[crypto]\<close> walks the prototype
  chain: a key that is not one of the seven own keys still finds a value when it names a
  property of \<open>Object.prototype\<close>. Those values are functions (for \<open>__proto__\<close> the
  prototype object itself): truthy, and without any of the fields of a table entry.
  An \<open>undefined\<close> key is converted to the string \<open>undefined\<close>.
\<close>

definition Object_prototype :: "string list" where
  "Object_prototype =
    [''constructor'', ''__defineGetter__'', ''__defineSetter__'', ''hasOwnProperty'',
     ''__lookupGetter__'', ''__lookupSetter__'', ''isPrototypeOf'', ''propertyIsEnumerable'',
     ''toString'', ''valueOf'', ''__proto__'', ''toLocaleString'']"

datatype property = Undefined | Inherited | Own coin

definition cryptoData_get :: "string option \<Rightarrow> property" where
  "cryptoData_get crypto =
    (let k = (case crypto of None \<Rightarrow> ''undefined'' | Some s \<Rightarrow> s) in
     case map_of cryptoData k of
       Some data \<Rightarrow> Own data
     | None \<Rightarrow> if k \<in> set Object_prototype then Inherited else Undefined)"

section \<open>The fallback estimator \<open>simulateAdvancedPrediction\<close>\<close>

text \<open>
  \<open>Math.random\<close> is a source of draws: the sequence of values it will return, and the
  number of draws already taken. Each call returns the next value and advances the count.
\<close>

type_synonym rng = "nat \<Rightarrow> real"

definition Math_random :: "rng \<Rightarrow> nat \<Rightarrow> real \<times> nat" where
  "Math_random rand n = (rand n, Suc n)"

text \<open>
  The body of \<open>if (days > 0)\<close>: three draws for the price, one for the confidence. The
  price is computed over the reals, the confidence in binary64.
\<close>

definition daily_prediction :: "rng \<Rightarrow> nat \<Rightarrow> real \<Rightarrow> real \<Rightarrow> coin \<Rightarrow> jsval \<times> nat" where
  "daily_prediction rand n0 basePrice days data =
    (let (r1, n1) = Math_random rand n0;
         volatility = r1 * 0.1 + 0.05;
         (r2, n2) = Math_random rand n1;
         trend = (r2 - 0.5) * 0.2;
         (r3, n3) = Math_random rand n2;
         predictedPrice = basePrice * (1 + trend + (r3 - 0.5) * volatility);
         (r4, n4) = Math_random rand n3
     in (JObject
          [(''predicted_price'', JNumber (Num (max 0 predictedPrice))),
           (''days_ahead'', JNumber (Num days)),
           (''confidence'', JNumber (Num (daily_confidence r4))),
           (''model_accuracy'', JNumber (Num (accuracy (dailyModel data))))], n4))"

text \<open>The body of \<open>if (hours > 0)\<close>.\<close>

definition hourly_prediction :: "rng \<Rightarrow> nat \<Rightarrow> real \<Rightarrow> real \<Rightarrow> coin \<Rightarrow> jsval \<times> nat" where
  "hourly_prediction rand n0 basePrice hours data =
    (let (r1, n1) = Math_random rand n0;
         volatility = r1 * 0.05 + 0.01;
         (r2, n2) = Math_random rand n1;
         trend = (r2 - 0.5) * 0.1;
         (r3, n3) = Math_random rand n2;
         predictedPrice = basePrice * (1 + trend + (r3 - 0.5) * volatility);
         (r4, n4) = Math_random rand n3
     in (JObject
          [(''predicted_price'', JNumber (Num (max 0 predictedPrice))),
           (''hours_ahead'', JNumber (Num hours)),
           (''confidence'', JNumber (Num (hourly_confidence r4))),
           (''model_accuracy'', JNumber (Num (accuracy (hourlyModel data))))], n4))"

definition accuracy_of_undefined :: js_error where
  "accuracy_of_undefined =
    TypeError (''Cannot read properties of undefined (reading '' @ [CHR 0x27] @ ''accuracy''
      @ [CHR 0x27] @ '')'')"

text \<open>
  \<open>simulateAdvancedPrediction(crypto, days, hours, price)\<close> (\<open>script.js\<close>, lines
  573-618). \<open>price\<close> is \<open>null\<close>
  (\<open>None\<close>) or a number. The result is the thrown error or the returned \<open>predictions\<close>
  object, whose properties are listed in the order the code assigns them. The 800 ms delay
  is not modelled, and the call of \<open>updatePredictionResults\<close> is an event of the caller.

  When the lookup finds an inherited property, \<open>data.currentPrice\<close> and
  \<open>data.dailyModel\<close> are \<open>undefined\<close>: the first horizon block that runs throws a
  TypeError while reading \<open>.accuracy\<close>, and with no block the function returns.
\<close>

definition simulateAdvancedPrediction ::
    "rng \<Rightarrow> string option \<Rightarrow> real \<Rightarrow> real \<Rightarrow> jsnum option \<Rightarrow> js_error + jsval" where
  "simulateAdvancedPrediction rand crypto days hours price =
    (let symbol_value = (case crypto of None \<Rightarrow> JUndefined | Some s \<Rightarrow> JString s) in
     case cryptoData_get crypto of
       Undefined \<Rightarrow> Inl (Error ''Cryptocurrency not found'')
     | Inherited \<Rightarrow>
         if days > 0 \<or> hours > 0 then Inl accuracy_of_undefined
         else Inr (JObject
           [(''symbol'', symbol_value),
            (''current_price'',
               (case price of
                  Some (Num x) \<Rightarrow> if x \<noteq> 0 then JNumber (Num x) else JUndefined
                | _ \<Rightarrow> JUndefined))])
     | Own data \<Rightarrow>
         (let basePrice = or_else price (currentPrice data);
              (daily, n1) =
                (if days > 0
                 then (let (d, n) = daily_prediction rand 0 basePrice days data
                       in ([(''daily_prediction'', d)], n))
                 else ([], 0));
              (hourly, n2) =
                (if hours > 0
                 then (let (h, n) = hourly_prediction rand n1 basePrice hours data
                       in ([(''hourly_prediction'', h)], n))
                 else ([], n1))
          in Inr (JObject
               (daily @ hourly @
                [(''symbol'', symbol_value),
                 (''current_price'', JNumber (Num basePrice))]))))"

section \<open>The form and \<open>generatePrediction\<close>\<close>

text \<open>
  What \<open>generatePrediction\<close> reads from the page. An input that is not in the document
  is \<open>None\<close>. For the two horizon inputs the record holds what \<open>parseInt\<close> returns on
  the input's value; for the price input it holds whether the value is empty (falsy) and
  otherwise what \<open>parseFloat\<close> returns on it.
\<close>

datatype price_value = EmptyValue | Parsed jsnum

record form =
  cryptoSelect :: "string option"
  daysAheadInput :: "jsnum option"
  hoursAheadInput :: "jsnum option"
  currentPriceInput :: "price_value option"
  predictBtn :: bool

text \<open>
  \<open>Number.parseInt(input?.value) || 0\<close>: a missing input gives \<open>undefined\<close>, which parses
  to \<open>NaN\<close>, and \<open>NaN\<close> and \<open>0\<close> both become \<open>0\<close>.
\<close>

definition parsed_horizon :: "jsnum option \<Rightarrow> real" where
  "parsed_horizon input = js_or (case input of None \<Rightarrow> NaN | Some v \<Rightarrow> v) 0"

definition daysAhead :: "form \<Rightarrow> real" where
  "daysAhead f = parsed_horizon (daysAheadInput f)"

definition hoursAhead :: "form \<Rightarrow> real" where
  "hoursAhead f = parsed_horizon (hoursAheadInput f)"

text \<open>\<open>input?.value ? Number.parseFloat(input.value) : null\<close>\<close>

definition parsed_price :: "price_value option \<Rightarrow> jsnum option" where
  "parsed_price input =
    (case input of None \<Rightarrow> None | Some EmptyValue \<Rightarrow> None | Some (Parsed v) \<Rightarrow> Some v)"

text \<open>The price check \<open>currentPrice && currentPrice <= 0\<close>.\<close>

definition price_check :: "jsnum option \<Rightarrow> bool" where
  "price_check currentPrice_value =
    (case currentPrice_value of None \<Rightarrow> False | Some p \<Rightarrow> truthy p \<and> le_zero p)"

text \<open>
  What a run of \<open>generatePrediction\<close> does, in order: notifications and alerts with
  their text, the loading state of the button, the call of the estimator with its
  arguments, the rendering of a returned prediction, the network request.
\<close>

datatype event =
    ShowNotification string string
  | Alert string
  | SetButtonLoading
  | RestoreButton
  | Call_simulateAdvancedPrediction "string option" real real "jsnum option"
  | UpdatePredictionResults jsval
  | Fetch string jsval

fun is_prediction_step :: "event \<Rightarrow> bool" where
  "is_prediction_step (Call_simulateAdvancedPrediction c d h p) = True"
| "is_prediction_step (UpdatePredictionResults v) = True"
| "is_prediction_step (Fetch url body) = True"
| "is_prediction_step _ = False"

text \<open>
  \<open>generatePrediction\<close> of \<open>script.js\<close> (lines 476-525), which calls the estimator in
  the page. Console output is left out.
\<close>

definition generatePrediction :: "rng \<Rightarrow> form \<Rightarrow> event list" where
  "generatePrediction rand f =
    (let selectedCrypto = cryptoSelect f;
         days = daysAhead f;
         hours = hoursAhead f;
         price = parsed_price (currentPriceInput f)
     in if days = 0 \<and> hours = 0
        then [ShowNotification ''Please select at least one prediction timeframe'' ''warning'']
        else if price_check price
        then [ShowNotification ''Please enter a valid current price'' ''error'']
        else if predictBtn f
        then [SetButtonLoading, Call_simulateAdvancedPrediction selectedCrypto days hours price]
             @ (case simulateAdvancedPrediction rand selectedCrypto days hours price of
                  Inr predictions \<Rightarrow>
                    [UpdatePredictionResults predictions,
                     ShowNotification ''Predictions generated successfully!'' ''success'']
                | Inl err \<Rightarrow>
                    [ShowNotification (''Prediction failed: '' @ message err) ''error''])
             @ [RestoreButton]
        else [])"

text \<open>
  \<open>generatePrediction\<close> of the second page script (\<open>unnamed/part_000\<close>, lines
  225-353), which asks the prediction service. Here the
  inputs are read without optional chaining: a missing input throws a TypeError, which the
  outer \<open>try\<close> turns into a generic alert, and so does a missing button. What happens to
  the request is a parameter: \<open>fetch\<close>, \<open>resp.json()\<close> or the rendering throws an
  error with a message, the service answers with a status that is not ok (status and
  status text), or the answer is rendered.
\<close>

datatype response = Throws string | NotOk string string | Rendered

definition toLowerCase :: "string \<Rightarrow> string" where
  "toLowerCase s =
    map (\<lambda>c. let n = (of_char c :: nat) in if 65 \<le> n \<and> n \<le> 90 then char_of (n + 32) else c) s"

definition outer_catch :: "event list" where
  "outer_catch = [Alert ''Prediction failed. Please try again.'']"

definition generatePrediction_fetch :: "response \<Rightarrow> form \<Rightarrow> event list" where
  "generatePrediction_fetch resp f =
    (case cryptoSelect f of None \<Rightarrow> outer_catch | Some selectedCrypto \<Rightarrow>
     case daysAheadInput f of None \<Rightarrow> outer_catch | Some d \<Rightarrow>
     case hoursAheadInput f of None \<Rightarrow> outer_catch | Some h \<Rightarrow>
     case currentPriceInput f of None \<Rightarrow> outer_catch | Some pv \<Rightarrow>
       (let days = js_or d 0;
            hours = js_or h 0;
            price = parsed_price (Some pv)
        in if days = 0 \<and> hours = 0
           then [Alert ''Please select at least one prediction timeframe (days or hours ahead)'']
           else if price_check price
           then [Alert ''Please enter a valid current price'']
           else if \<not> predictBtn f then outer_catch
           else [SetButtonLoading,
                 Fetch (''/api/predict/'' @ toLowerCase selectedCrypto)
                   (JObject
                     ([(''symbol'', JString selectedCrypto),
                       (''days_ahead'', JNumber (Num days)),
                       (''hours_ahead'', JNumber (Num hours))]
                      @ (case price of
                           Some p \<Rightarrow> if truthy p then [(''current_price'', JNumber p)] else []
                         | None \<Rightarrow> [])))]
                @ (case resp of
                     Throws m \<Rightarrow> [Alert (''Prediction failed: '' @ m)]
                   | NotOk status statusText \<Rightarrow>
                       [Alert (''Prediction failed: HTTP '' @ status @ '': '' @ statusText)]
                   | Rendered \<Rightarrow>
                       [Alert ''Predictions generated successfully! Check the prediction cards below.''])
                @ [RestoreButton]))"

section \<open>The response contract of the specification\<close>

text \<open>
  The specification describes the answer of the prediction service: the fields
  \<open>symbol\<close>, \<open>timestamp\<close> and \<open>current_price\<close>, and in each sub-prediction that is
  present the fields \<open>predicted_price\<close>, \<open>currency\<close>, the horizon and \<open>model_type\<close>.
  This predicate follows those words; it is compared below with the object the estimator
  of the page builds.
\<close>

definition response_contract :: "jsval \<Rightarrow> bool" where
  "response_contract obj =
    (has_property obj ''symbol'' \<and> has_property obj ''timestamp''
     \<and> has_property obj ''current_price''
     \<and> (has_property obj ''daily_prediction'' \<longrightarrow>
          (let d = get_property obj ''daily_prediction''
           in has_property d ''predicted_price'' \<and> has_property d ''currency''
              \<and> has_property d ''days_ahead'' \<and> has_property d ''model_type''))
     \<and> (has_property obj ''hourly_prediction'' \<longrightarrow>
          (let h = get_property obj ''hourly_prediction''
           in has_property h ''predicted_price'' \<and> has_property h ''currency''
              \<and> has_property h ''hours_ahead'' \<and> has_property h ''model_type'')))"

section \<open>Sample inputs\<close>

text \<open>
  A source of draws that always returns one half, one that always returns the largest
  binary64 number below 1, and a filled-in form.
\<close>

definition half_draws :: rng where
  "half_draws n = 1 / 2"

definition top_draws :: rng where
  "top_draws n = 1 - 1 / 2 ^ 53"

definition sample_form :: "string \<Rightarrow> real \<Rightarrow> real \<Rightarrow> price_value \<Rightarrow> form" where
  "sample_form s d h p =
    \<lparr>cryptoSelect = Some s, daysAheadInput = Some (Num d), hoursAheadInput = Some (Num h),
     currentPriceInput = Some p, predictBtn = True\<rparr>"

section \<open>Auxiliary facts\<close>

lemma own_get: "map_of cryptoData s = Some c \<Longrightarrow> cryptoData_get (Some s) = Own c"
  by (simp add: cryptoData_get_def)

lemma own_BTC: "map_of cryptoData ''BTC'' = Some (the (map_of cryptoData ''BTC''))"
  by (simp add: cryptoData_def)

lemma own_ETH: "map_of cryptoData ''ETH'' = Some (the (map_of cryptoData ''ETH''))"
  by (simp add: cryptoData_def)

lemma half_draws_unit: "\<forall>i. 0 \<le> half_draws i \<and> half_draws i < 1"
  by (simp add: half_draws_def)

lemma toLowerCase_BTC: "toLowerCase ''BTC'' = ''btc''"
  by code_simp

lemma daily_prediction_eq:
  "daily_prediction rand n b d c =
    (JObject
      [(''predicted_price'',
          JNumber (Num (max 0 (b * (1 + (rand (n + 1) - 0.5) * 0.2
                                      + (rand (n + 2) - 0.5) * (rand n * 0.1 + 0.05)))))),
       (''days_ahead'', JNumber (Num d)),
       (''confidence'', JNumber (Num (daily_confidence (rand (n + 3))))),
       (''model_accuracy'', JNumber (Num (accuracy (dailyModel c))))], n + 4)"
  by (simp add: daily_prediction_def Math_random_def Let_def eval_nat_numeral)

lemma hourly_prediction_eq:
  "hourly_prediction rand n b h c =
    (JObject
      [(''predicted_price'',
          JNumber (Num (max 0 (b * (1 + (rand (n + 1) - 0.5) * 0.1
                                      + (rand (n + 2) - 0.5) * (rand n * 0.05 + 0.01)))))),
       (''hours_ahead'', JNumber (Num h)),
       (''confidence'', JNumber (Num (hourly_confidence (rand (n + 3))))),
       (''model_accuracy'', JNumber (Num (accuracy (hourlyModel c))))], n + 4)"
  by (simp add: hourly_prediction_def Math_random_def Let_def eval_nat_numeral)

lemma simulate_own:
  assumes "map_of cryptoData s = Some c"
  shows "simulateAdvancedPrediction rand (Some s) days hours price =
    Inr (JObject
      ((if days > 0
        then [(''daily_prediction'',
                 fst (daily_prediction rand 0 (or_else price (currentPrice c)) days c))]
        else [])
       @ (if hours > 0
          then [(''hourly_prediction'',
                   fst (hourly_prediction rand (if days > 0 then 4 else 0)
                          (or_else price (currentPrice c)) hours c))]
          else [])
       @ [(''symbol'', JString s),
          (''current_price'', JNumber (Num (or_else price (currentPrice c))))]))"
  by (simp add: simulateAdvancedPrediction_def own_get [OF assms] Let_def
        daily_prediction_eq hourly_prediction_eq)

lemma noise_bounds:
  fixes r v :: real
  assumes "0 \<le> r" "r < 1" "0 \<le> v"
  shows "- (v / 2) \<le> (r - 0.5) * v" and "(r - 0.5) * v \<le> v / 2"
proof -
  have "0 \<le> r * v" using assms by simp
  then show "- (v / 2) \<le> (r - 0.5) * v" by (simp add: algebra_simps)
  have "r * v \<le> 1 * v" using assms by (intro mult_right_mono) simp_all
  then show "(r - 0.5) * v \<le> v / 2" by (simp add: algebra_simps)
qed

lemma daily_factor_pos:
  fixes r1 r2 r3 :: real
  assumes "0 \<le> r1" "r1 < 1" "0 \<le> r2" "r2 < 1" "0 \<le> r3" "r3 < 1"
  shows "0 < 1 + (r2 - 0.5) * 0.2 + (r3 - 0.5) * (r1 * 0.1 + 0.05)"
proof -
  define v where "v = r1 * 0.1 + 0.05"
  define t where "t = (r2 - 0.5) * 0.2"
  define u where "u = (r3 - 0.5) * v"
  have v: "0 \<le> v" "v < 3 / 20" using assms by (simp_all add: v_def)
  have "- (v / 2) \<le> u"
    unfolding u_def using assms v by (intro noise_bounds) simp_all
  moreover have "- (1 / 10) \<le> t" using assms by (simp add: t_def)
  ultimately have "0 < 1 + t + u" using v by linarith
  then show ?thesis by (simp add: t_def u_def v_def)
qed

lemma draw_bounds:
  fixes r :: real
  assumes "0 \<le> r" "r < 1"
  shows "0.05 \<le> r * 0.1 + 0.05" "r * 0.1 + 0.05 \<le> 0.15"
    and "- 0.1 \<le> (r - 0.5) * 0.2" "(r - 0.5) * 0.2 \<le> 0.1"
    and "0.01 \<le> r * 0.05 + 0.01" "r * 0.05 + 0.01 \<le> 0.06"
    and "- 0.05 \<le> (r - 0.5) * 0.1" "(r - 0.5) * 0.1 \<le> 0.05"
  using assms by simp_all

lemma noise_abs:
  fixes r v :: real
  assumes "0 \<le> r" "r < 1" "0 \<le> v"
  shows "\<bar>(r - 0.5) * v\<bar> \<le> v / 2"
  using noise_bounds [OF assms] by (simp only: abs_le_iff) simp

subsection \<open>Rounding is monotone, and the range of the confidence\<close>

lemma rne_lower: "\<lfloor>y\<rfloor> \<le> rne y"
  by (simp add: rne_def Let_def)

lemma rne_upper: "rne y \<le> \<lfloor>y\<rfloor> + 1"
  by (simp add: rne_def Let_def)

lemma rne_of_int: "rne (of_int k) = k"
  by (simp add: rne_def)

lemma rne_mono:
  assumes "y \<le> z"
  shows "rne y \<le> rne z"
proof (cases "\<lfloor>y\<rfloor> = \<lfloor>z\<rfloor>")
  case True
  with assms show ?thesis by (auto simp add: rne_def Let_def)
next
  case False
  with assms have "\<lfloor>y\<rfloor> < \<lfloor>z\<rfloor>" by (simp add: floor_mono order.not_eq_order_implies_strict)
  then have "\<lfloor>y\<rfloor> + 1 \<le> \<lfloor>z\<rfloor>" by simp
  with rne_upper [of y] rne_lower [of z] show ?thesis by linarith
qed

lemma rne_le_int: "y \<le> of_int k \<Longrightarrow> rne y \<le> k"
  using rne_mono [of y "of_int k"] by (simp add: rne_of_int)

lemma rne_ge_int: "of_int k \<le> y \<Longrightarrow> k \<le> rne y"
  using rne_mono [of "of_int k" y] by (simp add: rne_of_int)

lemma halvings_small: "x < 2 \<Longrightarrow> halvings n x = 0"
  by (cases n) simp_all

lemma doublings_le: "doublings n x \<le> n"
  by (induction n arbitrary: x) simp_all

lemma doublings_bounds:
  assumes "0 < x" and "x < 2"
  shows "x * 2 ^ doublings n x < 2"
    and "doublings n x < n \<Longrightarrow> 1 \<le> x * 2 ^ doublings n x"
  using assms
proof (induction n arbitrary: x)
  case 0
  { case 1 then show ?case by simp }
  { case 2 then show ?case by simp }
next
  case (Suc n)
  { case 1
    show ?case
    proof (cases "x < 1")
      case True
      then have "2 * x * 2 ^ doublings n (2 * x) < 2"
        using 1 by (intro Suc.IH(1)) simp_all
      with True show ?thesis by (simp add: mult.assoc mult.left_commute)
    next
      case False
      with 1 show ?thesis by simp
    qed }
  { case 2
    show ?case
    proof (cases "x < 1")
      case True
      then have "1 \<le> 2 * x * 2 ^ doublings n (2 * x)"
        using 2 by (intro Suc.IH(2)) simp_all
      with True show ?thesis by (simp add: mult.assoc mult.left_commute)
    next
      case False
      then show ?thesis by simp
    qed }
qed


lemma fl_small:
  assumes "0 < x" and "x < 2"
  shows "fl x = of_int (rne (x * 2 ^ (52 + doublings 1022 x))) / 2 ^ (52 + doublings 1022 x)"
  using assms by (simp add: fl_def scale_def halvings_small power_add)

lemma fl_zero: "fl 0 = 0"
  by (simp add: fl_def)

lemma fl_nonneg:
  assumes "0 \<le> x" and "x < 2"
  shows "0 \<le> fl x"
proof (cases "x = 0")
  case True
  then show ?thesis by (simp add: fl_zero)
next
  case False
  with assms have x: "0 < x" by simp
  have "(0::int) \<le> rne (x * 2 ^ (52 + doublings 1022 x))"
    using x by (intro rne_ge_int) simp
  then show ?thesis by (simp add: fl_small [OF x assms(2)])
qed

lemma fl_mono_pos:
  assumes x: "0 < x" and xy: "x \<le> y" and y: "y < 2"
  shows "fl x \<le> fl y"
proof -
  define kx where "kx = doublings 1022 x"
  define ky where "ky = doublings 1022 y"
  have y0: "0 < y" and x2: "x < 2" using assms by simp_all
  have dx: "x * 2 ^ kx < 2" "kx < 1022 \<Longrightarrow> 1 \<le> x * 2 ^ kx"
    unfolding kx_def using doublings_bounds [OF x x2] by simp_all
  have dy: "y * 2 ^ ky < 2" "ky < 1022 \<Longrightarrow> 1 \<le> y * 2 ^ ky"
    unfolding ky_def using doublings_bounds [OF y0 y] by simp_all
  have kle: "kx \<le> 1022" "ky \<le> 1022"
    unfolding kx_def ky_def by (rule doublings_le)+
  have fx: "fl x = of_int (rne (x * 2 ^ (52 + kx))) / 2 ^ (52 + kx)"
    unfolding kx_def by (rule fl_small [OF x x2])
  have fy: "fl y = of_int (rne (y * 2 ^ (52 + ky))) / 2 ^ (52 + ky)"
    unfolding ky_def by (rule fl_small [OF y0 y])
  have kyx: "ky \<le> kx"
  proof (rule ccontr)
    assume "\<not> ky \<le> kx"
    then obtain d where d: "ky = kx + Suc d" by (metis less_iff_Suc_add not_le add_Suc_right)
    then have "kx < 1022" using kle by simp
    then have "1 \<le> x * 2 ^ kx" by (rule dx(2))
    then have "1 \<le> y * 2 ^ kx" using xy
      by (meson mult_right_mono order_trans zero_le_numeral zero_le_power)
    moreover have "(2::real) \<le> 2 ^ Suc d" by simp
    ultimately have "1 * 2 \<le> (y * 2 ^ kx) * 2 ^ Suc d"
      by (intro mult_mono) simp_all
    then have "2 \<le> y * 2 ^ ky" by (simp add: d power_add mult.assoc)
    with dy(1) show False by simp
  qed
  show ?thesis
  proof (cases "ky = kx")
    case True
    have "x * 2 ^ (52 + kx) \<le> y * 2 ^ (52 + kx)"
      using xy by (intro mult_right_mono) simp_all
    then have "rne (x * 2 ^ (52 + kx)) \<le> rne (y * 2 ^ (52 + kx))" by (rule rne_mono)
    then show ?thesis by (simp add: fx fy True divide_right_mono)
  next
    case False
    with kyx obtain d where d: "kx = ky + Suc d"
      by (metis less_iff_Suc_add le_neq_implies_less add_Suc_right)
    then have "ky < 1022" using kle by simp
    then have "1 \<le> y * 2 ^ ky" by (rule dy(2))
    then have "1 * 2 ^ 52 \<le> (y * 2 ^ ky) * 2 ^ 52" by (intro mult_right_mono) simp_all
    then have "of_int (2 ^ 52) \<le> y * 2 ^ (52 + ky)" by (simp add: power_add mult.assoc mult.left_commute)
    then have "2 ^ 52 \<le> rne (y * 2 ^ (52 + ky))" by (rule rne_ge_int)
    then have "(2::real) ^ 52 \<le> of_int (rne (y * 2 ^ (52 + ky)))"
      by (metis of_int_le_iff of_int_numeral of_int_power)
    then have ly: "1 / 2 ^ ky \<le> fl y"
      by (simp add: fy power_add field_simps)
    have "(x * 2 ^ kx) * 2 ^ 52 \<le> 2 * 2 ^ 52" using dx(1) by (intro mult_right_mono) simp_all
    then have "x * 2 ^ (52 + kx) \<le> of_int (2 ^ 53)" by (simp add: power_add mult.assoc mult.left_commute)
    then have "rne (x * 2 ^ (52 + kx)) \<le> 2 ^ 53" by (rule rne_le_int)
    then have "of_int (rne (x * 2 ^ (52 + kx))) \<le> (2::real) ^ 53"
      by (metis of_int_le_iff of_int_numeral of_int_power)
    then have "fl x \<le> 2 ^ 53 / 2 ^ (52 + kx)"
      by (simp add: fx divide_right_mono)
    also have "\<dots> = 1 / 2 ^ (ky + d)" by (simp add: d power_add)
    also have "\<dots> \<le> 1 / 2 ^ ky" by (simp add: power_add field_simps)
    finally show ?thesis using ly by simp
  qed
qed

lemma fl_mono:
  assumes "0 \<le> x" and "x \<le> y" and "y < 2"
  shows "fl x \<le> fl y"
proof (cases "x = 0")
  case True
  with assms show ?thesis by (simp add: fl_zero fl_nonneg)
next
  case False
  with assms show ?thesis by (intro fl_mono_pos) simp_all
qed


lemma binary64_below_one:
  assumes f: "fl r = r" and r0: "0 \<le> r" and r1: "r < 1"
  shows "r \<le> 1 - 1 / 2 ^ 53"
proof (cases "r < 1 / 2")
  case True
  then show ?thesis by simp
next
  case False
  then have h: "1 / 2 \<le> r" by simp
  then have p: "0 < r" "r < 2" using r1 by simp_all
  define k where "k = doublings 1022 r"
  have k2: "r * 2 ^ k < 2" and k1: "k < 1022 \<Longrightarrow> 1 \<le> r * 2 ^ k"
    unfolding k_def using doublings_bounds [OF p] by simp_all
  have "k = 1"
  proof (rule ccontr)
    assume n: "k \<noteq> 1"
    show False
    proof (cases "k = 0")
      case True
      with k1 r1 show False by simp
    next
      case False
      with n obtain d where d: "k = Suc (Suc d)" by (metis not0_implies_Suc One_nat_def)
      have "(4::real) \<le> 4 * 2 ^ d" by simp
      then have "1 / 2 * 4 \<le> r * (4 * 2 ^ d)" using h by (intro mult_mono) simp_all
      with k2 show False by (simp add: d)
    qed
  qed
  then have k: "doublings 1022 r = 1" by (simp add: k_def)
  define P :: real where "P = 2 ^ 53"
  have Ppos: "0 < P" by (simp add: P_def)
  have Pint: "P = of_int (2 ^ 53)" by (simp add: P_def)
  have e: "fl r = of_int (rne (r * P)) / P"
    unfolding fl_small [OF p] k P_def by simp
  define m where "m = rne (r * P)"
  have rm: "r = of_int m / P" using e f by (simp add: m_def)
  then have "of_int m = r * P" using Ppos by simp
  also have "\<dots> < 1 * P" using r1 Ppos by (intro mult_strict_right_mono)
  finally have "of_int m < (of_int (2 ^ 53) :: real)" by (simp only: Pint mult_1)
  then have "m < 2 ^ 53" by (simp only: of_int_less_iff)
  then have "m \<le> 2 ^ 53 - 1" by simp
  then have "(of_int m :: real) \<le> of_int (2 ^ 53 - 1)" by (simp only: of_int_le_iff)
  also have "\<dots> = P - 1" by (simp add: P_def)
  finally have "of_int m / P \<le> (P - 1) / P" using Ppos by (intro divide_right_mono) simp_all
  also have "\<dots> = 1 - 1 / P" using Ppos by (simp add: diff_divide_distrib)
  finally have "of_int m / P \<le> 1 - 1 / P" .
  then have "r \<le> 1 - 1 / P" by (simp only: rm [symmetric])
  then show ?thesis by (simp only: P_def)
qed

lemma fl_literal_facts:
  "0 \<le> fl 0.3" "fl 0.3 < 1" "fl (fl 0.3) < 1" "0 \<le> fl 0.7" "fl 0.7 < 1"
  "0 \<le> fl 0.2" "fl 0.2 < 1" "fl (fl 0.2) < 1" "0 \<le> fl 0.8" "fl 0.8 < 1"
  by code_simp+

lemma confidence_extremes:
  "daily_confidence 0 = fl 0.7" "daily_confidence (1 - 1 / 2 ^ 53) = 1 - 1 / 2 ^ 53"
  "hourly_confidence 0 = fl 0.8" "hourly_confidence (1 - 1 / 2 ^ 53) = 1"
  by code_simp+

lemma confidence_half:
  "daily_confidence (1 / 2) = 7656119366529843 / 9007199254740992"
  "hourly_confidence (1 / 2) = 8106479329266893 / 9007199254740992"
  by code_simp+

lemma rounded_affine_mono:
  assumes c: "0 \<le> c" "c < 1" "fl c < 1" and b: "0 \<le> b" "b < 1"
    and r: "0 \<le> r" "r \<le> s" "s < 1"
  shows "fl (fl (r * c) + b) \<le> fl (fl (s * c) + b)"
proof -
  have s0: "0 \<le> s" using r by simp
  have rc: "0 \<le> r * c" using r c by simp
  have rs: "r * c \<le> s * c" using r c by (intro mult_right_mono)
  have "s * c \<le> 1 * c" using r c by (intro mult_right_mono) simp_all
  then have sc: "s * c \<le> c" by simp
  have c2: "c < 2" "s * c < 2" using c sc by simp_all
  have f0: "0 \<le> fl (r * c)" using rc rs c2 by (intro fl_nonneg) simp_all
  have f1: "fl (r * c) \<le> fl (s * c)" using rc rs c2 by (intro fl_mono)
  have f2: "fl (s * c) \<le> fl c" using s0 c sc c2 by (intro fl_mono) simp_all
  show ?thesis
  proof (rule fl_mono)
    show "0 \<le> fl (r * c) + b" using f0 b by simp
    show "fl (r * c) + b \<le> fl (s * c) + b" using f1 by simp
    show "fl (s * c) + b < 2" using f2 c(3) b by simp
  qed
qed

lemma confidence_mono:
  assumes "0 \<le> r" and "r \<le> s" and "s < 1"
  shows "daily_confidence r \<le> daily_confidence s"
    and "hourly_confidence r \<le> hourly_confidence s"
  unfolding daily_confidence_def hourly_confidence_def
  by (rule rounded_affine_mono [OF _ _ _ _ _ assms]; rule fl_literal_facts)+

lemma confidence_bounds:
  assumes "fl r = r" and "0 \<le> r" and "r < 1"
  shows "fl 0.7 \<le> daily_confidence r" "daily_confidence r < 1"
    and "fl 0.8 \<le> hourly_confidence r" "hourly_confidence r \<le> 1"
proof -
  have t: "r \<le> 1 - 1 / 2 ^ 53" by (rule binary64_below_one [OF assms])
  have t1: "1 - 1 / 2 ^ 53 < (1::real)" by simp
  have z: "(0::real) \<le> 0" by simp
  show "fl 0.7 \<le> daily_confidence r"
    using confidence_mono(1) [OF z assms(2,3)] by (simp only: confidence_extremes)
  show "fl 0.8 \<le> hourly_confidence r"
    using confidence_mono(2) [OF z assms(2,3)] by (simp only: confidence_extremes)
  have "daily_confidence r \<le> 1 - 1 / 2 ^ 53"
    using confidence_mono(1) [OF assms(2) t t1] by (simp only: confidence_extremes)
  then show "daily_confidence r < 1" by simp
  show "hourly_confidence r \<le> 1"
    using confidence_mono(2) [OF assms(2) t t1] by (simp only: confidence_extremes)
qed

lemma binary64_samples:
  "fl (1 / 2) = 1 / 2" "fl (1 - 1 / 2 ^ 53) = 1 - 1 / 2 ^ 53" "0.8 \<le> fl 0.8" "0 \<le> fl 0.7"
  by code_simp+

lemma half_draws_binary64: "\<forall>i. fl (half_draws i) = half_draws i \<and> 0 \<le> half_draws i \<and> half_draws i < 1"
  by (simp add: half_draws_def binary64_samples)

lemma top_draws_binary64: "\<forall>i. fl (top_draws i) = top_draws i \<and> 0 \<le> top_draws i \<and> top_draws i < 1"
  unfolding top_draws_def by (simp only: binary64_samples) simp

section \<open>Validation in \<open>generatePrediction\<close>\<close>

text \<open>
  C1. When the parsed days-ahead value and the parsed hours-ahead value are both 0,
  \<open>generatePrediction\<close> shows the time-frame message and returns: its whole run is that
  one notification, so no prediction is produced, whatever the selected symbol and the
  price field are. The variant that asks the service does the same with an alert, once the
  four inputs it reads exist.
\<close>

theorem C1_zero_horizons_rejected:
  assumes "daysAhead f = 0" and "hoursAhead f = 0"
  shows "generatePrediction rand f =
      [ShowNotification ''Please select at least one prediction timeframe'' ''warning'']
    \<and> (cryptoSelect f \<noteq> None \<and> daysAheadInput f \<noteq> None \<and> hoursAheadInput f \<noteq> None
         \<and> currentPriceInput f \<noteq> None \<longrightarrow>
       generatePrediction_fetch resp f =
         [Alert ''Please select at least one prediction timeframe (days or hours ahead)''])"
  using assms
  by (auto simp add: generatePrediction_def generatePrediction_fetch_def daysAhead_def
        hoursAhead_def parsed_horizon_def)

theorem C1_zero_horizons_rejected_witness:
  "daysAhead (sample_form ''ETH'' 0 0 (Parsed (Num 2700))) = 0
   \<and> hoursAhead (sample_form ''ETH'' 0 0 (Parsed (Num 2700))) = 0
   \<and> generatePrediction half_draws (sample_form ''ETH'' 0 0 (Parsed (Num 2700))) =
       [ShowNotification ''Please select at least one prediction timeframe'' ''warning'']
   \<and> generatePrediction_fetch Rendered (sample_form ''ETH'' 0 0 (Parsed (Num 2700))) =
       [Alert ''Please select at least one prediction timeframe (days or hours ahead)'']"
proof -
  have d: "daysAhead (sample_form ''ETH'' 0 0 (Parsed (Num 2700))) = 0"
    by (simp add: sample_form_def daysAhead_def parsed_horizon_def)
  have h: "hoursAhead (sample_form ''ETH'' 0 0 (Parsed (Num 2700))) = 0"
    by (simp add: sample_form_def hoursAhead_def parsed_horizon_def)
  show ?thesis
    using d h C1_zero_horizons_rejected [OF d h, of half_draws Rendered]
    by (simp add: sample_form_def)
qed

text \<open>
  C8. When both horizons parse to 0 (as for symbol XRP with 0 days and 0 hours), the run
  of \<open>generatePrediction\<close> contains no prediction step: the estimator is not called, no
  result is rendered, and the variant that asks the service sends no request.
\<close>

theorem C8_no_prediction_step:
  assumes "daysAhead f = 0" and "hoursAhead f = 0"
  shows "(\<forall>e \<in> set (generatePrediction rand f). \<not> is_prediction_step e)
       \<and> (\<forall>e \<in> set (generatePrediction_fetch resp f). \<not> is_prediction_step e)"
  using assms
  by (auto simp add: generatePrediction_def generatePrediction_fetch_def daysAhead_def
        hoursAhead_def parsed_horizon_def outer_catch_def split: option.splits)

theorem C8_no_prediction_step_witness:
  "daysAhead (sample_form ''XRP'' 0 0 EmptyValue) = 0
   \<and> hoursAhead (sample_form ''XRP'' 0 0 EmptyValue) = 0
   \<and> filter is_prediction_step (generatePrediction half_draws (sample_form ''XRP'' 0 0 EmptyValue))
       = []
   \<and> filter is_prediction_step
       (generatePrediction_fetch Rendered (sample_form ''XRP'' 0 0 EmptyValue)) = []"
proof -
  have d: "daysAhead (sample_form ''XRP'' 0 0 EmptyValue) = 0"
    by (simp add: sample_form_def daysAhead_def parsed_horizon_def)
  have h: "hoursAhead (sample_form ''XRP'' 0 0 EmptyValue) = 0"
    by (simp add: sample_form_def hoursAhead_def parsed_horizon_def)
  show ?thesis
    using d h C8_no_prediction_step [OF d h, of half_draws Rendered]
    by (simp add: filter_empty_conv)
qed

text \<open>
  The prediction step is reached whenever both checks pass and the button exists, so its
  absence above is due to the validation.
\<close>

lemma prediction_step_reached:
  assumes "\<not> (daysAhead f = 0 \<and> hoursAhead f = 0)"
    and "\<not> price_check (parsed_price (currentPriceInput f))" and "predictBtn f"
  shows "Call_simulateAdvancedPrediction (cryptoSelect f) (daysAhead f) (hoursAhead f)
           (parsed_price (currentPriceInput f)) \<in> set (generatePrediction rand f)"
  using assms by (simp add: generatePrediction_def Let_def)

text \<open>
  C6. A request whose price field parses to -5 is always rejected: by the time-frame check
  when both horizons are 0, by the price check otherwise, for every symbol and every
  horizon. The variant that asks the service ends with a single alert and no request; with
  its inputs present the alert is the one of the failed check.
\<close>

theorem C6_negative_price_rejected:
  assumes "currentPriceInput f = Some (Parsed (Num (- 5)))"
  shows "generatePrediction rand f =
      (if daysAhead f = 0 \<and> hoursAhead f = 0
       then [ShowNotification ''Please select at least one prediction timeframe'' ''warning'']
       else [ShowNotification ''Please enter a valid current price'' ''error''])
    \<and> (\<exists>m. generatePrediction_fetch resp f = [Alert m])
    \<and> (cryptoSelect f \<noteq> None \<and> daysAheadInput f \<noteq> None \<and> hoursAheadInput f \<noteq> None \<longrightarrow>
        generatePrediction_fetch resp f =
          (if daysAhead f = 0 \<and> hoursAhead f = 0
           then [Alert ''Please select at least one prediction timeframe (days or hours ahead)'']
           else [Alert ''Please enter a valid current price'']))"
  using assms
  by (auto simp add: generatePrediction_def generatePrediction_fetch_def daysAhead_def
        hoursAhead_def parsed_horizon_def parsed_price_def price_check_def outer_catch_def
        split: option.splits)

theorem C6_negative_price_rejected_witness:
  "currentPriceInput (sample_form ''SOL'' 2 0 (Parsed (Num (- 5)))) = Some (Parsed (Num (- 5)))
   \<and> generatePrediction half_draws (sample_form ''SOL'' 2 0 (Parsed (Num (- 5)))) =
       [ShowNotification ''Please enter a valid current price'' ''error'']
   \<and> generatePrediction_fetch Rendered (sample_form ''SOL'' 2 0 (Parsed (Num (- 5)))) =
       [Alert ''Please enter a valid current price'']"
proof -
  have p: "currentPriceInput (sample_form ''SOL'' 2 0 (Parsed (Num (- 5))))
             = Some (Parsed (Num (- 5)))"
    by (simp add: sample_form_def)
  show ?thesis
    using p C6_negative_price_rejected [OF p, of half_draws Rendered]
    by (simp add: sample_form_def daysAhead_def parsed_horizon_def)
qed

text \<open>
  C3. The claim is that every request whose price is less than or equal to 0, exactly 0
  included, is rejected. The check is \<open>currentPrice && currentPrice <= 0\<close>: the
  comparison accepts 0, but the truthiness guard in front of it, meant for an empty field,
  is also false at 0. So a price field holding 0 passes: for BTC with one day ahead the
  estimator runs on the catalog price and the success message is shown, and the variant that
  asks the service sends the request without a \<open>current_price\<close>.
\<close>

theorem C3_zero_price_not_rejected:
  "generatePrediction half_draws (sample_form ''BTC'' 1 0 (Parsed (Num 0))) =
     [SetButtonLoading,
      Call_simulateAdvancedPrediction (Some ''BTC'') 1 0 (Some (Num 0)),
      UpdatePredictionResults
        (JObject
          [(''daily_prediction'',
              JObject
                [(''predicted_price'', JNumber (Num 43250.75)),
                 (''days_ahead'', JNumber (Num 1)),
                 (''confidence'', JNumber (Num (7656119366529843 / 9007199254740992))),
                 (''model_accuracy'', JNumber (Num 75.6))]),
           (''symbol'', JString ''BTC''),
           (''current_price'', JNumber (Num 43250.75))]),
      ShowNotification ''Predictions generated successfully!'' ''success'',
      RestoreButton]
   \<and> generatePrediction_fetch Rendered (sample_form ''BTC'' 1 0 (Parsed (Num 0))) =
     [SetButtonLoading,
      Fetch ''/api/predict/btc''
        (JObject
          [(''symbol'', JString ''BTC''),
           (''days_ahead'', JNumber (Num 1)),
           (''hours_ahead'', JNumber (Num 0))]),
      Alert ''Predictions generated successfully! Check the prediction cards below.'',
      RestoreButton]"
  by (simp add: generatePrediction_def generatePrediction_fetch_def sample_form_def
        daysAhead_def hoursAhead_def parsed_horizon_def parsed_price_def price_check_def
        simulate_own [OF own_BTC] daily_prediction_eq half_draws_def cryptoData_def
        confidence_half toLowerCase_BTC Let_def)

text \<open>
  C10. A price field that parses to exactly 0 is not rejected by the price check, and the
  estimator then takes the catalog price of \<open>cryptoData\<close> as the basis price: for
  every own key of the table, whenever the horizons are not both 0 and the button exists,
  the run calls the estimator with price 0, and the estimator returns what it returns for
  no price at all. The result has the catalog price as \<open>current_price\<close>, each predicted
  price is \<open>max(0, catalog price * (1 + trend + noise))\<close>, and the run renders this result
  and reports success.
\<close>

theorem C10_zero_price_uses_catalog:
  assumes "currentPriceInput f = Some (Parsed (Num 0))"
    and "cryptoSelect f = Some s" and "map_of cryptoData s = Some c"
    and "\<not> (daysAhead f = 0 \<and> hoursAhead f = 0)" and "predictBtn f"
  shows "\<not> price_check (parsed_price (currentPriceInput f))
    \<and> simulateAdvancedPrediction rand (Some s) (daysAhead f) (hoursAhead f) (Some (Num 0))
        = simulateAdvancedPrediction rand (Some s) (daysAhead f) (hoursAhead f) None
    \<and> (\<exists>obj. simulateAdvancedPrediction rand (Some s) (daysAhead f) (hoursAhead f)
                (Some (Num 0)) = Inr obj
          \<and> get_property obj ''current_price'' = JNumber (Num (currentPrice c))
          \<and> (daysAhead f > 0 \<longrightarrow>
               get_property (get_property obj ''daily_prediction'') ''predicted_price''
                 = JNumber (Num (max 0 (currentPrice c *
                     (1 + (rand 1 - 0.5) * 0.2 + (rand 2 - 0.5) * (rand 0 * 0.1 + 0.05))))))
          \<and> (hoursAhead f > 0 \<longrightarrow>
               (let k = (if daysAhead f > 0 then 4 else 0)
                in get_property (get_property obj ''hourly_prediction'') ''predicted_price''
                 = JNumber (Num (max 0 (currentPrice c *
                     (1 + (rand (k + 1) - 0.5) * 0.1
                        + (rand (k + 2) - 0.5) * (rand k * 0.05 + 0.01)))))))
          \<and> generatePrediction rand f =
              [SetButtonLoading,
               Call_simulateAdvancedPrediction (Some s) (daysAhead f) (hoursAhead f)
                 (Some (Num 0)),
               UpdatePredictionResults obj,
               ShowNotification ''Predictions generated successfully!'' ''success'',
               RestoreButton])"
proof -
  have pc: "\<not> price_check (parsed_price (currentPriceInput f))"
    using assms(1) by (simp add: price_check_def parsed_price_def)
  have pp: "parsed_price (currentPriceInput f) = Some (Num 0)"
    using assms(1) by (simp add: parsed_price_def)
  define obj where "obj = JObject
      ((if daysAhead f > 0
        then [(''daily_prediction'',
                 fst (daily_prediction rand 0 (currentPrice c) (daysAhead f) c))]
        else [])
       @ (if hoursAhead f > 0
          then [(''hourly_prediction'',
                   fst (hourly_prediction rand (if daysAhead f > 0 then 4 else 0)
                          (currentPrice c) (hoursAhead f) c))]
          else [])
       @ [(''symbol'', JString s),
          (''current_price'', JNumber (Num (currentPrice c)))])"
  have so: "simulateAdvancedPrediction rand (Some s) (daysAhead f) (hoursAhead f)
              (Some (Num 0)) = Inr obj"
    unfolding obj_def by (simp add: simulate_own [OF assms(3)])
  have sn: "simulateAdvancedPrediction rand (Some s) (daysAhead f) (hoursAhead f) None
              = Inr obj"
    unfolding obj_def by (simp add: simulate_own [OF assms(3)])
  have cp: "get_property obj ''current_price'' = JNumber (Num (currentPrice c))"
    unfolding obj_def by simp
  have daily: "get_property (get_property obj ''daily_prediction'') ''predicted_price''
                 = JNumber (Num (max 0 (currentPrice c *
                     (1 + (rand 1 - 0.5) * 0.2 + (rand 2 - 0.5) * (rand 0 * 0.1 + 0.05)))))"
    if "daysAhead f > 0"
    unfolding obj_def using that by (simp add: daily_prediction_eq numeral_2_eq_2)
  have hourly: "let k = (if daysAhead f > 0 then 4 else 0)
                in get_property (get_property obj ''hourly_prediction'') ''predicted_price''
                 = JNumber (Num (max 0 (currentPrice c *
                     (1 + (rand (k + 1) - 0.5) * 0.1
                        + (rand (k + 2) - 0.5) * (rand k * 0.05 + 0.01)))))"
    if "hoursAhead f > 0"
    unfolding obj_def Let_def using that
    by (simp add: daily_prediction_eq hourly_prediction_eq)
  have gp: "generatePrediction rand f =
      [SetButtonLoading,
       Call_simulateAdvancedPrediction (Some s) (daysAhead f) (hoursAhead f) (Some (Num 0)),
       UpdatePredictionResults obj,
       ShowNotification ''Predictions generated successfully!'' ''success'',
       RestoreButton]"
    using assms(2,4,5) pc pp by (simp add: generatePrediction_def Let_def so)
  show ?thesis
    using pc so sn cp daily hourly gp by (simp only:) blast
qed

theorem C10_zero_price_uses_catalog_witness:
  "currentPriceInput (sample_form ''BTC'' 1 0 (Parsed (Num 0))) = Some (Parsed (Num 0))
   \<and> cryptoSelect (sample_form ''BTC'' 1 0 (Parsed (Num 0))) = Some ''BTC''
   \<and> map_of cryptoData ''BTC'' \<noteq> None
   \<and> daysAhead (sample_form ''BTC'' 1 0 (Parsed (Num 0))) = 1
   \<and> predictBtn (sample_form ''BTC'' 1 0 (Parsed (Num 0)))
   \<and> \<not> price_check (parsed_price (currentPriceInput (sample_form ''BTC'' 1 0 (Parsed (Num 0)))))
   \<and> (\<exists>obj. simulateAdvancedPrediction half_draws (Some ''BTC'') 1 0 (Some (Num 0)) = Inr obj
          \<and> get_property obj ''current_price'' = JNumber (Num 43250.75)
          \<and> get_property (get_property obj ''daily_prediction'') ''predicted_price''
               = JNumber (Num 43250.75)
          \<and> generatePrediction half_draws (sample_form ''BTC'' 1 0 (Parsed (Num 0))) =
              [SetButtonLoading,
               Call_simulateAdvancedPrediction (Some ''BTC'') 1 0 (Some (Num 0)),
               UpdatePredictionResults obj,
               ShowNotification ''Predictions generated successfully!'' ''success'',
               RestoreButton])"
proof -
  let ?f = "sample_form ''BTC'' 1 0 (Parsed (Num 0))"
  have p: "currentPriceInput ?f = Some (Parsed (Num 0))" by (simp add: sample_form_def)
  have s: "cryptoSelect ?f = Some ''BTC''" by (simp add: sample_form_def)
  have k0: "map_of cryptoData ''BTC'' \<noteq> None" by (simp add: cryptoData_def)
  have d: "daysAhead ?f = 1" by (simp add: sample_form_def daysAhead_def parsed_horizon_def)
  have h: "hoursAhead ?f = 0" by (simp add: sample_form_def hoursAhead_def parsed_horizon_def)
  have nz: "\<not> (daysAhead ?f = 0 \<and> hoursAhead ?f = 0)" using d by simp
  have b: "predictBtn ?f" by (simp add: sample_form_def)
  have c: "currentPrice (the (map_of cryptoData ''BTC'')) = 43250.75"
    by (simp add: cryptoData_def)
  have hd: "half_draws i = 1 / 2" for i by (simp add: half_draws_def)
  note t = C10_zero_price_uses_catalog [OF p s own_BTC nz b, of half_draws]
  have pc: "\<not> price_check (parsed_price (currentPriceInput ?f))"
    by (rule t [THEN conjunct1])
  have "\<exists>obj. simulateAdvancedPrediction half_draws (Some ''BTC'') 1 0 (Some (Num 0)) = Inr obj
          \<and> get_property obj ''current_price'' = JNumber (Num 43250.75)
          \<and> get_property (get_property obj ''daily_prediction'') ''predicted_price''
               = JNumber (Num 43250.75)
          \<and> generatePrediction half_draws ?f =
              [SetButtonLoading,
               Call_simulateAdvancedPrediction (Some ''BTC'') 1 0 (Some (Num 0)),
               UpdatePredictionResults obj,
               ShowNotification ''Predictions generated successfully!'' ''success'',
               RestoreButton]"
    using t [THEN conjunct2, THEN conjunct2]
    unfolding c d h by (simp add: hd [of 0] hd [of "Suc 0"] hd [of 2])
  with p s k0 d b pc show ?thesis by blast
qed

section \<open>The fallback estimator\<close>

text \<open>
  C2. For a symbol that is a key of \<open>cryptoData\<close>, any price argument and any draws in
  \<open>[0,1)\<close>: when \<open>days > 0\<close> the daily predicted price is
  \<open>max(0, basePrice * (1 + trend + noise))\<close>, where the trend lies between -10% and +10%,
  the volatility between 5% and 15%, and the noise is at most half the volatility in
  absolute value; when \<open>hours > 0\<close> the hourly predicted price has the same form with a
  trend between -5% and +5% and a volatility between 1% and 6%. The hourly draws follow
  the four daily draws when both horizons are asked for.
\<close>

theorem C2_fallback_formula:
  assumes "map_of cryptoData s = Some c" and "\<forall>i. 0 \<le> rand i \<and> rand i < 1"
  shows "\<exists>obj. simulateAdvancedPrediction rand (Some s) days hours price = Inr obj \<and>
    (days > 0 \<longrightarrow>
      (let volatility = rand 0 * 0.1 + 0.05;
           trend = (rand 1 - 0.5) * 0.2;
           noise = (rand 2 - 0.5) * volatility
       in get_property (get_property obj ''daily_prediction'') ''predicted_price''
            = JNumber (Num (max 0 (or_else price (currentPrice c) * (1 + trend + noise))))
          \<and> - 0.1 \<le> trend \<and> trend \<le> 0.1
          \<and> 0.05 \<le> volatility \<and> volatility \<le> 0.15
          \<and> \<bar>noise\<bar> \<le> volatility / 2)) \<and>
    (hours > 0 \<longrightarrow>
      (let k = (if days > 0 then 4 else 0);
           volatility = rand k * 0.05 + 0.01;
           trend = (rand (k + 1) - 0.5) * 0.1;
           noise = (rand (k + 2) - 0.5) * volatility
       in get_property (get_property obj ''hourly_prediction'') ''predicted_price''
            = JNumber (Num (max 0 (or_else price (currentPrice c) * (1 + trend + noise))))
          \<and> - 0.05 \<le> trend \<and> trend \<le> 0.05
          \<and> 0.01 \<le> volatility \<and> volatility \<le> 0.06
          \<and> \<bar>noise\<bar> \<le> volatility / 2))"
proof -
  have r: "0 \<le> rand i" "rand i < 1" for i using assms(2) by simp_all
  note b = draw_bounds [OF r]
  have nd: "\<bar>(rand j - 0.5) * (rand i * 0.1 + 0.05)\<bar> \<le> (rand i * 0.1 + 0.05) / 2" for i j
    using r [of i] by (intro noise_abs r) simp
  have nh: "\<bar>(rand j - 0.5) * (rand i * 0.05 + 0.01)\<bar> \<le> (rand i * 0.05 + 0.01) / 2" for i j
    using r [of i] by (intro noise_abs r) simp
  define obj where "obj = JObject
      ((if days > 0
        then [(''daily_prediction'',
                 fst (daily_prediction rand 0 (or_else price (currentPrice c)) days c))]
        else [])
       @ (if hours > 0
          then [(''hourly_prediction'',
                   fst (hourly_prediction rand (if days > 0 then 4 else 0)
                          (or_else price (currentPrice c)) hours c))]
          else [])
       @ [(''symbol'', JString s),
          (''current_price'', JNumber (Num (or_else price (currentPrice c))))])"
  have eq: "simulateAdvancedPrediction rand (Some s) days hours price = Inr obj"
    unfolding obj_def by (rule simulate_own [OF assms(1)])
  have daily: "let volatility = rand 0 * 0.1 + 0.05;
           trend = (rand 1 - 0.5) * 0.2;
           noise = (rand 2 - 0.5) * volatility
       in get_property (get_property obj ''daily_prediction'') ''predicted_price''
            = JNumber (Num (max 0 (or_else price (currentPrice c) * (1 + trend + noise))))
          \<and> - 0.1 \<le> trend \<and> trend \<le> 0.1
          \<and> 0.05 \<le> volatility \<and> volatility \<le> 0.15
          \<and> \<bar>noise\<bar> \<le> volatility / 2" if "days > 0"
    unfolding Let_def obj_def using that
    by (intro conjI b nd) (simp add: daily_prediction_eq numeral_2_eq_2)
  have hourly: "let k = (if days > 0 then 4 else 0);
           volatility = rand k * 0.05 + 0.01;
           trend = (rand (k + 1) - 0.5) * 0.1;
           noise = (rand (k + 2) - 0.5) * volatility
       in get_property (get_property obj ''hourly_prediction'') ''predicted_price''
            = JNumber (Num (max 0 (or_else price (currentPrice c) * (1 + trend + noise))))
          \<and> - 0.05 \<le> trend \<and> trend \<le> 0.05
          \<and> 0.01 \<le> volatility \<and> volatility \<le> 0.06
          \<and> \<bar>noise\<bar> \<le> volatility / 2" if "hours > 0"
    unfolding Let_def obj_def using that
    by (intro conjI b nh) (simp add: daily_prediction_eq hourly_prediction_eq)
  show ?thesis using eq daily hourly by blast
qed

theorem C2_fallback_formula_witness:
  "map_of cryptoData ''BTC'' \<noteq> None
   \<and> (\<forall>i. 0 \<le> half_draws i \<and> half_draws i < 1)
   \<and> (\<exists>obj. simulateAdvancedPrediction half_draws (Some ''BTC'') 1 2 (Some (Num 50000)) = Inr obj
        \<and> get_property (get_property obj ''daily_prediction'') ''predicted_price''
            = JNumber (Num 50000)
        \<and> get_property (get_property obj ''hourly_prediction'') ''predicted_price''
            = JNumber (Num 50000))"
proof -
  have k0: "map_of cryptoData ''BTC'' \<noteq> None"
    by (simp add: cryptoData_def)
  then have k: "map_of cryptoData ''BTC'' = Some (the (map_of cryptoData ''BTC''))"
    by simp
  have r: "\<forall>i. 0 \<le> half_draws i \<and> half_draws i < 1"
    by (simp add: half_draws_def)
  have hd: "half_draws i = 1 / 2" for i
    by (simp add: half_draws_def)
  have "\<exists>obj. simulateAdvancedPrediction half_draws (Some ''BTC'') 1 2 (Some (Num 50000)) = Inr obj
        \<and> get_property (get_property obj ''daily_prediction'') ''predicted_price''
            = JNumber (Num 50000)
        \<and> get_property (get_property obj ''hourly_prediction'') ''predicted_price''
            = JNumber (Num 50000)"
    using C2_fallback_formula [OF k r, of 1 2 "Some (Num 50000)"]
    by (simp add: Let_def hd [of 0] hd [of "Suc 0"] hd [of 2] hd [of 4] hd [of 5] hd [of 6])
  with k0 r show ?thesis by blast
qed

text \<open>
  C4. For symbol BTC, one day ahead, no hours ahead and price 50000, with any draws in
  \<open>[0,1)\<close>, the estimator returns a result with a daily prediction whose predicted price
  is strictly positive and whose \<open>days_ahead\<close> is 1, and without an hourly prediction.
\<close>

theorem C4_btc_example:
  assumes "\<forall>i. 0 \<le> rand i \<and> rand i < 1"
  shows "\<exists>obj p. simulateAdvancedPrediction rand (Some ''BTC'') 1 0 (Some (Num 50000)) = Inr obj
      \<and> get_property (get_property obj ''daily_prediction'') ''predicted_price'' = JNumber (Num p)
      \<and> 0 < p
      \<and> get_property (get_property obj ''daily_prediction'') ''days_ahead'' = JNumber (Num 1)
      \<and> \<not> has_property obj ''hourly_prediction''"
proof -
  have r: "0 \<le> rand i" "rand i < 1" for i using assms by simp_all
  have k: "map_of cryptoData ''BTC'' = Some (the (map_of cryptoData ''BTC''))"
    by (simp add: cryptoData_def)
  define p where
    "p = 50000 * (1 + (rand 1 - 0.5) * 0.2 + (rand 2 - 0.5) * (rand 0 * 0.1 + 0.05))"
  have pos: "0 < p"
    unfolding p_def by (intro mult_pos_pos daily_factor_pos r) simp_all
  then have m: "max 0 p = p" by simp
  have "get_property (get_property
          (JObject [(''daily_prediction'',
                       fst (daily_prediction rand 0 50000 1 (the (map_of cryptoData ''BTC''))))
                    , (''symbol'', JString ''BTC''), (''current_price'', JNumber (Num 50000))])
             ''daily_prediction'') ''predicted_price'' = JNumber (Num p)"
    using m by (simp add: daily_prediction_eq p_def numeral_2_eq_2)
  then show ?thesis
    using pos by (simp add: simulate_own [OF k] daily_prediction_eq)
qed

theorem C4_btc_example_witness:
  "(\<forall>i. 0 \<le> half_draws i \<and> half_draws i < 1)
   \<and> (\<exists>obj p. simulateAdvancedPrediction half_draws (Some ''BTC'') 1 0 (Some (Num 50000))
                  = Inr obj
      \<and> get_property (get_property obj ''daily_prediction'') ''predicted_price'' = JNumber (Num p)
      \<and> 0 < p
      \<and> get_property (get_property obj ''daily_prediction'') ''days_ahead'' = JNumber (Num 1)
      \<and> \<not> has_property obj ''hourly_prediction'')"
  using half_draws_unit C4_btc_example [OF half_draws_unit] by blast

text \<open>
  C5, as claimed: every hourly sub-prediction has a confidence in \<open>[0.8,1)\<close>. The draw
  \<open>1 - 2^-53\<close>, the largest binary64 number below 1, is a draw in \<open>[0,1)\<close>, and for it
  \<open>Math.random() * 0.2 + 0.8\<close> is exactly 1 in binary64: the product rounds to the number
  just below the literal 0.2, and its sum with the literal 0.8 rounds up to 1.
\<close>

theorem C5_counterexample:
  "(\<forall>i. fl (top_draws i) = top_draws i \<and> 0 \<le> top_draws i \<and> top_draws i < 1)
   \<and> (\<exists>obj. simulateAdvancedPrediction top_draws (Some ''BTC'') 0 1 None = Inr obj
        \<and> get_property (get_property obj ''hourly_prediction'') ''confidence''
            = JNumber (Num 1))"
proof -
  have c: "hourly_confidence (top_draws 3) = 1"
    unfolding top_draws_def by (rule confidence_extremes(4))
  have "\<exists>obj. simulateAdvancedPrediction top_draws (Some ''BTC'') 0 1 None = Inr obj
        \<and> get_property (get_property obj ''hourly_prediction'') ''confidence''
            = JNumber (Num 1)"
    by (simp add: simulate_own [OF own_BTC] hourly_prediction_eq c)
  with top_draws_binary64 show ?thesis by blast
qed

text \<open>
  C5, amended. For a symbol that is a key of \<open>cryptoData\<close>, any price argument and any
  draws that are binary64 numbers in \<open>[0,1)\<close>, the result has a daily prediction exactly
  when \<open>days > 0\<close> and an hourly one exactly when \<open>hours > 0\<close>. Each of them has a predicted
  price that is not negative, carries the horizon it was asked for, has a confidence in
  \<open>[0,1]\<close>, and has the \<open>model_accuracy\<close> of the table entry unchanged. The daily
  confidence lies in \<open>[0.7,1)\<close> and the hourly one in \<open>[0.8,1]\<close>, where the lower bounds
  are the binary64 numbers that the literals 0.7 and 0.8 denote (\<open>fl 0.7\<close> is slightly
  below the real number 0.7, \<open>fl 0.8\<close> slightly above 0.8).
\<close>

theorem C5_sub_predictions:
  assumes "map_of cryptoData s = Some c"
    and "\<forall>i. fl (rand i) = rand i \<and> 0 \<le> rand i \<and> rand i < 1"
  shows "\<exists>obj. simulateAdvancedPrediction rand (Some s) days hours price = Inr obj \<and>
    (has_property obj ''daily_prediction'' = (days > 0)) \<and>
    (has_property obj ''hourly_prediction'' = (hours > 0)) \<and>
    (days > 0 \<longrightarrow>
      (\<exists>p q. get_property (get_property obj ''daily_prediction'') ''predicted_price''
                = JNumber (Num p) \<and> 0 \<le> p
            \<and> get_property (get_property obj ''daily_prediction'') ''days_ahead''
                = JNumber (Num days)
            \<and> get_property (get_property obj ''daily_prediction'') ''confidence''
                = JNumber (Num q) \<and> 0 \<le> q \<and> fl 0.7 \<le> q \<and> q < 1
            \<and> get_property (get_property obj ''daily_prediction'') ''model_accuracy''
                = JNumber (Num (accuracy (dailyModel c))))) \<and>
    (hours > 0 \<longrightarrow>
      (\<exists>p q. get_property (get_property obj ''hourly_prediction'') ''predicted_price''
                = JNumber (Num p) \<and> 0 \<le> p
            \<and> get_property (get_property obj ''hourly_prediction'') ''hours_ahead''
                = JNumber (Num hours)
            \<and> get_property (get_property obj ''hourly_prediction'') ''confidence''
                = JNumber (Num q) \<and> 0.8 \<le> q \<and> fl 0.8 \<le> q \<and> q \<le> 1
            \<and> get_property (get_property obj ''hourly_prediction'') ''model_accuracy''
                = JNumber (Num (accuracy (hourlyModel c)))))"
proof -
  have r: "fl (rand i) = rand i" "0 \<le> rand i" "rand i < 1" for i
    using assms(2) by simp_all
  note b = confidence_bounds [OF r]
  have d0: "0 \<le> daily_confidence (rand i)" for i
    using b(1) [of i] binary64_samples(4) by simp
  have h8: "0.8 \<le> hourly_confidence (rand i)" for i
    using b(3) [of i] binary64_samples(3) by simp
  define obj where "obj = JObject
      ((if days > 0
        then [(''daily_prediction'',
                 fst (daily_prediction rand 0 (or_else price (currentPrice c)) days c))]
        else [])
       @ (if hours > 0
          then [(''hourly_prediction'',
                   fst (hourly_prediction rand (if days > 0 then 4 else 0)
                          (or_else price (currentPrice c)) hours c))]
          else [])
       @ [(''symbol'', JString s),
          (''current_price'', JNumber (Num (or_else price (currentPrice c))))])"
  have eq: "simulateAdvancedPrediction rand (Some s) days hours price = Inr obj"
    unfolding obj_def by (rule simulate_own [OF assms(1)])
  have hd: "has_property obj ''daily_prediction'' = (days > 0)"
    unfolding obj_def by auto
  have hh: "has_property obj ''hourly_prediction'' = (hours > 0)"
    unfolding obj_def by auto
  have daily: "\<exists>p q. get_property (get_property obj ''daily_prediction'') ''predicted_price''
                = JNumber (Num p) \<and> 0 \<le> p
            \<and> get_property (get_property obj ''daily_prediction'') ''days_ahead''
                = JNumber (Num days)
            \<and> get_property (get_property obj ''daily_prediction'') ''confidence''
                = JNumber (Num q) \<and> 0 \<le> q \<and> fl 0.7 \<le> q \<and> q < 1
            \<and> get_property (get_property obj ''daily_prediction'') ''model_accuracy''
                = JNumber (Num (accuracy (dailyModel c)))" if "days > 0"
    unfolding obj_def using that d0 [of 3] b(1,2) [of 3]
    by (simp add: daily_prediction_eq)
  have hourly: "\<exists>p q. get_property (get_property obj ''hourly_prediction'') ''predicted_price''
                = JNumber (Num p) \<and> 0 \<le> p
            \<and> get_property (get_property obj ''hourly_prediction'') ''hours_ahead''
                = JNumber (Num hours)
            \<and> get_property (get_property obj ''hourly_prediction'') ''confidence''
                = JNumber (Num q) \<and> 0.8 \<le> q \<and> fl 0.8 \<le> q \<and> q \<le> 1
            \<and> get_property (get_property obj ''hourly_prediction'') ''model_accuracy''
                = JNumber (Num (accuracy (hourlyModel c)))" if "hours > 0"
    unfolding obj_def using that h8 [of 3] b(3,4) [of 3] h8 [of 7] b(3,4) [of 7]
    by (simp add: daily_prediction_eq hourly_prediction_eq)
  show ?thesis using eq hd hh daily hourly by blast
qed

theorem C5_sub_predictions_witness:
  "map_of cryptoData ''ETH'' \<noteq> None
   \<and> (\<forall>i. fl (half_draws i) = half_draws i \<and> 0 \<le> half_draws i \<and> half_draws i < 1)
   \<and> (\<exists>obj. simulateAdvancedPrediction half_draws (Some ''ETH'') 3 5 None = Inr obj
        \<and> has_property obj ''daily_prediction'' \<and> has_property obj ''hourly_prediction''
        \<and> get_property (get_property obj ''daily_prediction'') ''days_ahead''
            = JNumber (Num 3)
        \<and> get_property (get_property obj ''daily_prediction'') ''model_accuracy''
            = JNumber (Num 74.2)
        \<and> get_property (get_property obj ''hourly_prediction'') ''hours_ahead''
            = JNumber (Num 5)
        \<and> get_property (get_property obj ''hourly_prediction'') ''model_accuracy''
            = JNumber (Num 88.5))"
proof -
  have k0: "map_of cryptoData ''ETH'' \<noteq> None" by (simp add: cryptoData_def)
  have a: "accuracy (dailyModel (the (map_of cryptoData ''ETH''))) = 74.2"
    "accuracy (hourlyModel (the (map_of cryptoData ''ETH''))) = 88.5"
    by (simp_all add: cryptoData_def)
  have "\<exists>obj. simulateAdvancedPrediction half_draws (Some ''ETH'') 3 5 None = Inr obj
        \<and> has_property obj ''daily_prediction'' \<and> has_property obj ''hourly_prediction''
        \<and> get_property (get_property obj ''daily_prediction'') ''days_ahead''
            = JNumber (Num 3)
        \<and> get_property (get_property obj ''daily_prediction'') ''model_accuracy''
            = JNumber (Num 74.2)
        \<and> get_property (get_property obj ''hourly_prediction'') ''hours_ahead''
            = JNumber (Num 5)
        \<and> get_property (get_property obj ''hourly_prediction'') ''model_accuracy''
            = JNumber (Num 88.5)"
    using C5_sub_predictions [OF own_ETH half_draws_binary64, of 3 5 None]
    unfolding a by simp blast
  with k0 half_draws_binary64 show ?thesis by blast
qed

section \<open>The fields of the result\<close>

text \<open>
  C7, as claimed: every successful response has the fields \<open>symbol\<close>, \<open>timestamp\<close> and
  \<open>current_price\<close>, and each sub-prediction has \<open>predicted_price\<close>, \<open>currency\<close>, its
  horizon and \<open>model_type\<close>. The result of the estimator for BTC, one day ahead, does not
  satisfy this contract: it has no \<open>timestamp\<close>, and its daily prediction has neither
  \<open>currency\<close> nor \<open>model_type\<close>.
\<close>

theorem C7_counterexample:
  "\<not> (case simulateAdvancedPrediction half_draws (Some ''BTC'') 1 0 (Some (Num 50000)) of
        Inl err \<Rightarrow> True
      | Inr obj \<Rightarrow> response_contract obj)"
  by (simp add: simulate_own [OF own_BTC] response_contract_def)

text \<open>
  C7, amended: every result that \<open>simulateAdvancedPrediction\<close> returns has the fields
  \<open>symbol\<close> and \<open>current_price\<close>, preceded by \<open>daily_prediction\<close> when \<open>days > 0\<close>
  and \<open>hourly_prediction\<close> when \<open>hours > 0\<close>, and no other field; a sub-prediction has
  exactly the fields \<open>predicted_price\<close>, its horizon (\<open>days_ahead\<close> or \<open>hours_ahead\<close>),
  \<open>confidence\<close> and \<open>model_accuracy\<close>.
\<close>

theorem C7_result_fields:
  assumes "simulateAdvancedPrediction rand crypto days hours price = Inr obj"
  shows "keys obj =
      (if days > 0 then [''daily_prediction''] else [])
      @ (if hours > 0 then [''hourly_prediction''] else [])
      @ [''symbol'', ''current_price'']
    \<and> (days > 0 \<longrightarrow> keys (get_property obj ''daily_prediction'') =
          [''predicted_price'', ''days_ahead'', ''confidence'', ''model_accuracy''])
    \<and> (hours > 0 \<longrightarrow> keys (get_property obj ''hourly_prediction'') =
          [''predicted_price'', ''hours_ahead'', ''confidence'', ''model_accuracy''])"
  using assms
  by (auto simp add: simulateAdvancedPrediction_def Let_def daily_prediction_eq
        hourly_prediction_eq split: property.splits if_splits)

theorem C7_result_fields_witness:
  "simulateAdvancedPrediction half_draws (Some ''BTC'') 1 0 (Some (Num 50000)) =
     Inr (JObject
       [(''daily_prediction'',
           JObject
             [(''predicted_price'', JNumber (Num 50000)),
              (''days_ahead'', JNumber (Num 1)),
              (''confidence'', JNumber (Num (7656119366529843 / 9007199254740992))),
              (''model_accuracy'', JNumber (Num 75.6))]),
        (''symbol'', JString ''BTC''),
        (''current_price'', JNumber (Num 50000))])
   \<and> keys (JObject
       [(''daily_prediction'',
           JObject
             [(''predicted_price'', JNumber (Num 50000)),
              (''days_ahead'', JNumber (Num 1)),
              (''confidence'', JNumber (Num (7656119366529843 / 9007199254740992))),
              (''model_accuracy'', JNumber (Num 75.6))]),
        (''symbol'', JString ''BTC''),
        (''current_price'', JNumber (Num 50000))])
      = [''daily_prediction'', ''symbol'', ''current_price'']"
proof -
  have e: "simulateAdvancedPrediction half_draws (Some ''BTC'') 1 0 (Some (Num 50000)) =
     Inr (JObject
       [(''daily_prediction'',
           JObject
             [(''predicted_price'', JNumber (Num 50000)),
              (''days_ahead'', JNumber (Num 1)),
              (''confidence'', JNumber (Num (7656119366529843 / 9007199254740992))),
              (''model_accuracy'', JNumber (Num 75.6))]),
        (''symbol'', JString ''BTC''),
        (''current_price'', JNumber (Num 50000))])"
    by (simp add: simulate_own [OF own_BTC] daily_prediction_eq half_draws_def cryptoData_def
          confidence_half)
  show ?thesis
    using e C7_result_fields [OF e] by simp
qed

section \<open>Symbols outside the table\<close>

text \<open>
  A symbol that is neither an own key of \<open>cryptoData\<close> nor the name of an inherited
  property is refused with \<open>Cryptocurrency not found\<close>; XRP and LTC are such symbols.
\<close>

lemma unknown_symbol_not_found:
  assumes "map_of cryptoData s = None" and "s \<notin> set Object_prototype"
  shows "simulateAdvancedPrediction rand (Some s) days hours price =
           Inl (Error ''Cryptocurrency not found'')"
  using assms by (simp add: simulateAdvancedPrediction_def cryptoData_get_def)

lemma xrp_ltc_not_found:
  "simulateAdvancedPrediction rand (Some ''XRP'') days hours price =
     Inl (Error ''Cryptocurrency not found'')"
  "simulateAdvancedPrediction rand (Some ''LTC'') days hours price =
     Inl (Error ''Cryptocurrency not found'')"
  by (simp_all add: simulateAdvancedPrediction_def cryptoData_get_def cryptoData_def
        Object_prototype_def)

text \<open>
  C9. The claim is that every symbol outside the seven keys makes the estimator throw
  \<open>Cryptocurrency not found\<close>. For the symbol \<open>constructor\<close> the lookup finds the
  inherited \<open>Object.prototype.constructor\<close>, which is truthy, so the guard \<open>!data\<close> does
  not fire: with one day ahead the estimator throws a TypeError instead, and with a negative
  horizon it returns a result.
\<close>

theorem C9_inherited_key_passes_guard:
  "simulateAdvancedPrediction half_draws (Some ''constructor'') 1 0 None
     = Inl accuracy_of_undefined
   \<and> accuracy_of_undefined \<noteq> Error ''Cryptocurrency not found''
   \<and> simulateAdvancedPrediction half_draws (Some ''constructor'') (- 1) 0 None
     = Inr (JObject [(''symbol'', JString ''constructor''), (''current_price'', JUndefined)])"
  by (simp add: simulateAdvancedPrediction_def cryptoData_get_def cryptoData_def
        Object_prototype_def accuracy_of_undefined_def)

end
